theory Spec2Isabelle
  imports Complex_Main
begin

section \<open>Floating-point values\<close>

text \<open>
  The widget's layout quantities are C \<^verbatim>\<open>gfloat\<close> values (IEEE 754 binary32) and the
  adjustments' quantities are \<^verbatim>\<open>gdouble\<close> values (binary64). A value is a finite real,
  an infinity or a NaN; the two zeros are identified, since they compare equal and nothing
  here divides. Every \<^verbatim>\<open>gfloat\<close> addition and subtraction rounds its exact result to the
  nearest binary32 value, ties to even, and a conversion from \<^verbatim>\<open>gdouble\<close> to
  \<^verbatim>\<open>gfloat\<close> rounds the same way. Expressions are evaluated in the type of their
  operands.
\<close>

datatype ieee = Finite real | PlusInf | MinusInf | NaN

type_synonym gfloat = ieee

type_synonym gdouble = ieee

definition pow2 :: "int \<Rightarrow> real" where
  "pow2 e = 2 powi e"

text \<open>
  The binary exponent of a magnitude, kept within the exponents of normal binary32
  numbers: the largest \<open>e\<close> from 127 down to -125 with \<open>2 ^ e \<le> a\<close>, and -126 when there
  is none (subnormal numbers share the spacing of the smallest normal ones).
\<close>

fun expo_from :: "nat \<Rightarrow> real \<Rightarrow> int" where
  "expo_from 0 a = -126"
| "expo_from (Suc n) a =
     (if pow2 (int (Suc n) - 126) \<le> a then int (Suc n) - 126 else expo_from n a)"

definition expo :: "real \<Rightarrow> int" where
  "expo a = expo_from 253 a"

definition round_half_even :: "real \<Rightarrow> int" where
  "round_half_even t =
     (let f = \<lfloor>t\<rfloor>; d = t - of_int f
      in if d < 1 / 2 then f
         else if 1 / 2 < d then f + 1
         else if even f then f else f + 1)"

text \<open>
  Rounding a real to binary32: a 24-bit significand, so the spacing at exponent \<open>e\<close> is
  \<open>2 ^ (e - 23)\<close>; a result of magnitude \<open>2 ^ 128\<close> or more overflows to an infinity.
\<close>

definition round32 :: "real \<Rightarrow> ieee" where
  "round32 x =
     (let q = pow2 (expo \<bar>x\<bar> - 23);
          y = of_int (round_half_even (x / q)) * q
      in if pow2 128 \<le> \<bar>y\<bar> then (if 0 < x then PlusInf else MinusInf)
         else Finite y)"

text \<open>\<^verbatim>\<open>a + b\<close> and \<^verbatim>\<open>a - b\<close> on two \<^verbatim>\<open>gfloat\<close> operands.\<close>

fun gfloat_add :: "gfloat \<Rightarrow> gfloat \<Rightarrow> gfloat" where
  "gfloat_add NaN _ = NaN"
| "gfloat_add _ NaN = NaN"
| "gfloat_add PlusInf MinusInf = NaN"
| "gfloat_add MinusInf PlusInf = NaN"
| "gfloat_add PlusInf _ = PlusInf"
| "gfloat_add _ PlusInf = PlusInf"
| "gfloat_add MinusInf _ = MinusInf"
| "gfloat_add _ MinusInf = MinusInf"
| "gfloat_add (Finite x) (Finite y) = round32 (x + y)"

fun gfloat_sub :: "gfloat \<Rightarrow> gfloat \<Rightarrow> gfloat" where
  "gfloat_sub NaN _ = NaN"
| "gfloat_sub _ NaN = NaN"
| "gfloat_sub PlusInf PlusInf = NaN"
| "gfloat_sub MinusInf MinusInf = NaN"
| "gfloat_sub PlusInf _ = PlusInf"
| "gfloat_sub _ PlusInf = MinusInf"
| "gfloat_sub MinusInf _ = MinusInf"
| "gfloat_sub _ MinusInf = PlusInf"
| "gfloat_sub (Finite x) (Finite y) = round32 (x - y)"

text \<open>\<^verbatim>\<open>a > b\<close> and \<^verbatim>\<open>a < b\<close>: false whenever an operand is a NaN.\<close>

fun ieee_gt :: "ieee \<Rightarrow> ieee \<Rightarrow> bool" where
  "ieee_gt NaN _ = False"
| "ieee_gt _ NaN = False"
| "ieee_gt PlusInf PlusInf = False"
| "ieee_gt PlusInf _ = True"
| "ieee_gt _ PlusInf = False"
| "ieee_gt MinusInf _ = False"
| "ieee_gt _ MinusInf = True"
| "ieee_gt (Finite x) (Finite y) = (y < x)"

definition ieee_lt :: "ieee \<Rightarrow> ieee \<Rightarrow> bool" where
  "ieee_lt a b = ieee_gt b a"

text \<open>Multiplying by -1 only changes the sign, exactly, in either format.\<close>

fun ieee_neg :: "ieee \<Rightarrow> ieee" where
  "ieee_neg (Finite x) = Finite (- x)"
| "ieee_neg PlusInf = MinusInf"
| "ieee_neg MinusInf = PlusInf"
| "ieee_neg NaN = NaN"

text \<open>The macro \<^verbatim>\<open>MAX (a, b)\<close>, which is \<^verbatim>\<open>((a) > (b)) ? (a) : (b)\<close>.\<close>

definition MAX_gfloat :: "ieee \<Rightarrow> ieee \<Rightarrow> ieee" where
  "MAX_gfloat a b = (if ieee_gt a b then a else b)"

text \<open>
  Conversions: every binary32 value is a binary64 value, so widening changes nothing;
  narrowing rounds a finite value and keeps an infinity or a NaN.
\<close>

definition gdouble_of_gfloat :: "gfloat \<Rightarrow> gdouble" where
  "gdouble_of_gfloat f = f"

fun gfloat_of_gdouble :: "gdouble \<Rightarrow> gfloat" where
  "gfloat_of_gdouble (Finite x) = round32 x"
| "gfloat_of_gdouble PlusInf = PlusInf"
| "gfloat_of_gdouble MinusInf = MinusInf"
| "gfloat_of_gdouble NaN = NaN"

section \<open>Data model of \<^verbatim>\<open>st-scroll-view.c\<close>\<close>

text \<open>A \<^verbatim>\<open>ClutterActor *\<close> is an address; \<^verbatim>\<open>NULL\<close> is address 0.\<close>

type_synonym actor_ptr = nat

definition NULL :: actor_ptr where
  "NULL = 0"

text \<open>\<^verbatim>\<open>StPolicyType\<close>: the four policy values the \<^verbatim>\<open>switch\<close> statements name.\<close>

datatype StPolicyType =
  ST_POLICY_ALWAYS | ST_POLICY_AUTOMATIC | ST_POLICY_NEVER | ST_POLICY_EXTERNAL

text \<open>
  Modelled from the spec: \<^verbatim>\<open>StAdjustment\<close> is declared outside this file; the glossary
  describes it as a range model holding a scroll position, bounds and a step increment.
  Only the \<^verbatim>\<open>step-increment\<close> property, a \<^verbatim>\<open>gdouble\<close>, is read or written here through
  \<^verbatim>\<open>g_object_get\<close>/\<^verbatim>\<open>g_object_set\<close>.
\<close>

record StAdjustment =
  step_increment :: gdouble

text \<open>\<^verbatim>\<open>struct _StScrollViewPrivate\<close>, field by field; the one-bit fields are booleans.\<close>

record StScrollViewPrivate =
  child :: actor_ptr
  hadjustment :: StAdjustment
  hscroll :: actor_ptr
  vadjustment :: StAdjustment
  vscroll :: actor_ptr
  hscrollbar_policy :: StPolicyType
  vscrollbar_policy :: StPolicyType
  row_size :: gfloat
  column_size :: gfloat
  fade_effect :: bool
  row_size_set :: bool
  column_size_set :: bool
  mouse_scroll :: bool
  overlay_scrollbars :: bool
  hscrollbar_visible :: bool
  vscrollbar_visible :: bool

text \<open>The property identifiers that \<^verbatim>\<open>g_object_notify_by_pspec\<close> is called with.\<close>

datatype prop_id =
  PROP_HSCROLLBAR_POLICY | PROP_VSCROLLBAR_POLICY
  | PROP_HSCROLLBAR_VISIBLE | PROP_VSCROLLBAR_VISIBLE
  | PROP_MOUSE_SCROLL | PROP_OVERLAY_SCROLLBARS

text \<open>
  Calls into the object system and the scene graph that a setter makes, in program order.
\<close>

datatype signal =
  FreezeNotify | ThawNotify | Notify prop_id | QueueRelayout

section \<open>\<^verbatim>\<open>st_scroll_view_set_policy\<close>\<close>

definition st_scroll_view_set_policy ::
  "StScrollViewPrivate \<Rightarrow> StPolicyType \<Rightarrow> StPolicyType \<Rightarrow> StScrollViewPrivate \<times> signal list" where
  "st_scroll_view_set_policy priv hscroll' vscroll' =
     (if hscrollbar_policy priv = hscroll' \<and> vscrollbar_policy priv = vscroll' then (priv, [])
      else
        let (p1, n1) =
              (if hscrollbar_policy priv \<noteq> hscroll'
               then (priv\<lparr>hscrollbar_policy := hscroll'\<rparr>, [Notify PROP_HSCROLLBAR_POLICY])
               else (priv, []));
            (p2, n2) =
              (if vscrollbar_policy p1 \<noteq> vscroll'
               then (p1\<lparr>vscrollbar_policy := vscroll'\<rparr>, [Notify PROP_VSCROLLBAR_POLICY])
               else (p1, []))
        in (p2, [FreezeNotify] @ n1 @ n2 @ [QueueRelayout, ThawNotify]))"

section \<open>Step sizes: \<^verbatim>\<open>st_scroll_view_set_column_size\<close> and friends\<close>

text \<open>
  \<^verbatim>\<open>g_object_get (adjustment, "step-increment", ...)\<close> reads the adjustment's step
  increment into a \<^verbatim>\<open>gdouble\<close>, which the getter returns as a \<^verbatim>\<open>gfloat\<close>;
  \<^verbatim>\<open>g_object_set\<close> stores the \<^verbatim>\<open>gfloat\<close> argument widened to \<^verbatim>\<open>gdouble\<close>.
\<close>

definition st_scroll_view_get_column_size :: "StScrollViewPrivate \<Rightarrow> gfloat" where
  "st_scroll_view_get_column_size priv = gfloat_of_gdouble (step_increment (hadjustment priv))"

definition st_scroll_view_set_column_size ::
  "StScrollViewPrivate \<Rightarrow> gfloat \<Rightarrow> StScrollViewPrivate" where
  "st_scroll_view_set_column_size priv column_size' =
     (if ieee_lt column_size' (Finite 0)
      then priv\<lparr>column_size_set := False, column_size := Finite (- 1)\<rparr>
      else priv\<lparr>column_size_set := True, column_size := column_size',
                hadjustment :=
                  (hadjustment priv)\<lparr>step_increment := gdouble_of_gfloat column_size'\<rparr>\<rparr>)"

definition st_scroll_view_get_row_size :: "StScrollViewPrivate \<Rightarrow> gfloat" where
  "st_scroll_view_get_row_size priv = gfloat_of_gdouble (step_increment (vadjustment priv))"

definition st_scroll_view_set_row_size ::
  "StScrollViewPrivate \<Rightarrow> gfloat \<Rightarrow> StScrollViewPrivate" where
  "st_scroll_view_set_row_size priv row_size' =
     (if ieee_lt row_size' (Finite 0)
      then priv\<lparr>row_size_set := False, row_size := Finite (- 1)\<rparr>
      else priv\<lparr>row_size_set := True, row_size := row_size',
                vadjustment :=
                  (vadjustment priv)\<lparr>step_increment := gdouble_of_gfloat row_size'\<rparr>\<rparr>)"

section \<open>Container interface: \<^verbatim>\<open>st_scroll_view_remove\<close>\<close>

datatype error = AssertionFailed | AssertNotReached

text \<open>
  \<^verbatim>\<open>g_assert (expr)\<close> aborts the program exactly when \<^verbatim>\<open>expr\<close> is false (zero).
\<close>

definition g_assert :: "bool \<Rightarrow> error + unit" where
  "g_assert expr = (if expr then Inr () else Inl AssertionFailed)"

text \<open>
  A C string literal used as a condition is the address of its character array, which is
  never the null pointer: its truth value does not depend on the characters.
\<close>

definition string_literal_as_condition :: "string \<Rightarrow> bool" where
  "string_literal_as_condition lit = True"

text \<open>The calls \<^verbatim>\<open>st_scroll_view_remove\<close> makes on its collaborators, in program order.\<close>

datatype container_call =
  ParentIfaceRemove actor_ptr
  | ScrollableSetAdjustmentsNull actor_ptr
  | ClutterActorRemoveChild actor_ptr

text \<open>
  The reference taken and dropped around the chained-up removal only keeps the child alive
  during the call and is not part of the state.
\<close>

definition st_scroll_view_remove ::
  "StScrollViewPrivate \<Rightarrow> actor_ptr \<Rightarrow> error + (StScrollViewPrivate \<times> container_call list)" where
  "st_scroll_view_remove priv actor =
     (if actor = child priv
      then Inr (priv\<lparr>child := NULL\<rparr>,
                [ParentIfaceRemove actor, ScrollableSetAdjustmentsNull (child priv)])
      else
        (case (if actor = vscroll priv then Inr (priv\<lparr>vscroll := NULL\<rparr>)
               else if actor = hscroll priv then Inr (priv\<lparr>hscroll := NULL\<rparr>)
               else (case g_assert (string_literal_as_condition
                                      ''Unknown child removed from StScrollView'') of
                       Inl e \<Rightarrow> Inl e
                     | Inr _ \<Rightarrow> Inr priv)) of
           Inl e \<Rightarrow> Inl e
         | Inr priv' \<Rightarrow> Inr (priv', [ClutterActorRemoveChild actor])))"

section \<open>Scroll-event routing\<close>

datatype ClutterTextDirection =
  CLUTTER_TEXT_DIRECTION_DEFAULT | CLUTTER_TEXT_DIRECTION_LTR | CLUTTER_TEXT_DIRECTION_RTL

datatype ClutterScrollDirection =
  CLUTTER_SCROLL_UP | CLUTTER_SCROLL_DOWN | CLUTTER_SCROLL_LEFT | CLUTTER_SCROLL_RIGHT
  | CLUTTER_SCROLL_SMOOTH

text \<open>
  What the handler reads from a \<^verbatim>\<open>ClutterEvent\<close>: whether its flags contain
  \<^verbatim>\<open>CLUTTER_EVENT_FLAG_POINTER_EMULATED\<close>, its scroll direction, and its smooth deltas
  (\<^verbatim>\<open>gdouble\<close>; \<^verbatim>\<open>delta_x *= -1\<close> negates).
\<close>

record ClutterEvent =
  pointer_emulated :: bool
  scroll_direction :: ClutterScrollDirection
  scroll_delta :: "gdouble \<times> gdouble"

text \<open>
  A call \<^verbatim>\<open>st_adjustment_adjust_for_scroll_event (adj, delta)\<close>, naming which of the
  view's two adjustments receives the delta.
\<close>

datatype adjustment_id = Hadjustment | Vadjustment

datatype scroll_call = AdjustForScrollEvent adjustment_id gdouble

definition adjust_with_direction ::
  "adjustment_id \<Rightarrow> ClutterScrollDirection \<Rightarrow> error + scroll_call list" where
  "adjust_with_direction adj direction =
     (case direction of
        CLUTTER_SCROLL_UP \<Rightarrow> Inr [AdjustForScrollEvent adj (Finite (- 1))]
      | CLUTTER_SCROLL_LEFT \<Rightarrow> Inr [AdjustForScrollEvent adj (Finite (- 1))]
      | CLUTTER_SCROLL_RIGHT \<Rightarrow> Inr [AdjustForScrollEvent adj (Finite 1)]
      | CLUTTER_SCROLL_DOWN \<Rightarrow> Inr [AdjustForScrollEvent adj (Finite 1)]
      | CLUTTER_SCROLL_SMOOTH \<Rightarrow> Inl AssertNotReached)"

text \<open>
  The result is the handler's return value (\<^verbatim>\<open>TRUE\<close>: the event was handled) with the
  adjustment calls made, or the assertion that stopped the program.
\<close>

definition st_scroll_view_scroll_event ::
  "StScrollViewPrivate \<Rightarrow> ClutterTextDirection \<Rightarrow> ClutterEvent \<Rightarrow> error + (bool \<times> scroll_call list)" where
  "st_scroll_view_scroll_event priv direction event =
     (if \<not> mouse_scroll priv then Inr (False, [])
      else if pointer_emulated event then Inr (True, [])
      else
        (case (case scroll_direction event of
                 CLUTTER_SCROLL_SMOOTH \<Rightarrow>
                   (let (delta_x, delta_y) = scroll_delta event;
                        delta_x = (if direction = CLUTTER_TEXT_DIRECTION_RTL
                                   then ieee_neg delta_x else delta_x)
                    in Inr [AdjustForScrollEvent Hadjustment delta_x,
                            AdjustForScrollEvent Vadjustment delta_y])
               | CLUTTER_SCROLL_UP \<Rightarrow> adjust_with_direction Vadjustment (scroll_direction event)
               | CLUTTER_SCROLL_DOWN \<Rightarrow> adjust_with_direction Vadjustment (scroll_direction event)
               | _ \<Rightarrow>
                   (if direction = CLUTTER_TEXT_DIRECTION_RTL
                    then adjust_with_direction Hadjustment
                           (if scroll_direction event = CLUTTER_SCROLL_LEFT
                            then CLUTTER_SCROLL_RIGHT else CLUTTER_SCROLL_LEFT)
                    else adjust_with_direction Hadjustment (scroll_direction event))) of
           Inl e \<Rightarrow> Inl e
         | Inr calls \<Rightarrow> Inr (True, calls)))"

section \<open>Layout: collaborators\<close>

datatype ClutterRequestMode =
  CLUTTER_REQUEST_HEIGHT_FOR_WIDTH | CLUTTER_REQUEST_WIDTH_FOR_HEIGHT
  | CLUTTER_REQUEST_CONTENT_SIZE

record ClutterActorBox =
  x1 :: gfloat
  y1 :: gfloat
  x2 :: gfloat
  y2 :: gfloat

text \<open>
  Everything the layout functions ask of code outside this file, taken as parameters:
  \<^item> \<^verbatim>\<open>clutter_actor_is_visible\<close>, \<^verbatim>\<open>clutter_actor_get_preferred_width\<close> and
    \<^verbatim>\<open>clutter_actor_get_preferred_height\<close> of another actor (the child or a scrollbar),
    the last two returning (minimum, natural) for the given opposite-axis size;
  \<^item> the scroll view's own request mode and text direction;
  \<^item> the theme node's \<^verbatim>\<open>adjust_for_height\<close>, \<^verbatim>\<open>adjust_for_width\<close>,
    \<^verbatim>\<open>adjust_preferred_width\<close>, \<^verbatim>\<open>adjust_preferred_height\<close> and \<^verbatim>\<open>get_content_box\<close>.
  An output location \<^verbatim>\<open>gfloat *p\<close> is a \<open>gfloat option\<close>: \<open>None\<close> is the null pointer,
  \<open>Some v\<close> a location holding \<open>v\<close>; a function that writes through such pointers returns
  their new contents.
\<close>

record layout_env =
  actor_is_visible :: "actor_ptr \<Rightarrow> bool"
  actor_get_preferred_width :: "actor_ptr \<Rightarrow> gfloat \<Rightarrow> gfloat \<times> gfloat"
  actor_get_preferred_height :: "actor_ptr \<Rightarrow> gfloat \<Rightarrow> gfloat \<times> gfloat"
  actor_get_request_mode :: ClutterRequestMode
  actor_get_text_direction :: ClutterTextDirection
  theme_adjust_for_height :: "gfloat \<Rightarrow> gfloat"
  theme_adjust_for_width :: "gfloat \<Rightarrow> gfloat"
  theme_adjust_preferred_width ::
    "gfloat option \<Rightarrow> gfloat option \<Rightarrow> gfloat option \<times> gfloat option"
  theme_adjust_preferred_height ::
    "gfloat option \<Rightarrow> gfloat option \<Rightarrow> gfloat option \<times> gfloat option"
  theme_get_content_box :: "ClutterActorBox \<Rightarrow> ClutterActorBox"

text \<open>\<^verbatim>\<open>if (p) *p = v;\<close>\<close>

definition store :: "gfloat option \<Rightarrow> gfloat \<Rightarrow> gfloat option" where
  "store p v = (case p of None \<Rightarrow> None | Some _ \<Rightarrow> Some v)"

section \<open>Layout: scrollbar thickness helpers\<close>

text \<open>
  Both helpers return \<^verbatim>\<open>double\<close>: the scrollbar's minimum size widened, or the constant 0.
\<close>

definition get_scrollbar_width :: "layout_env \<Rightarrow> StScrollViewPrivate \<Rightarrow> gfloat \<Rightarrow> gdouble" where
  "get_scrollbar_width env priv for_height =
     (if actor_is_visible env (vscroll priv)
      then gdouble_of_gfloat (fst (actor_get_preferred_width env (vscroll priv) for_height))
      else Finite 0)"

definition get_scrollbar_height :: "layout_env \<Rightarrow> StScrollViewPrivate \<Rightarrow> gfloat \<Rightarrow> gdouble" where
  "get_scrollbar_height env priv for_width =
     (if actor_is_visible env (hscroll priv)
      then gdouble_of_gfloat (fst (actor_get_preferred_height env (hscroll priv) for_width))
      else Finite 0)"

section \<open>Layout: preferred size\<close>

text \<open>
  \<^verbatim>\<open>float sb_width = get_scrollbar_width (...)\<close> narrows the helper's \<^verbatim>\<open>double\<close>;
  \<^verbatim>\<open>min_width += sb_width\<close> and \<^verbatim>\<open>natural_width += sb_width\<close> are \<^verbatim>\<open>gfloat\<close> additions.
\<close>

definition st_scroll_view_get_preferred_width ::
  "layout_env \<Rightarrow> StScrollViewPrivate \<Rightarrow> gfloat \<Rightarrow> gfloat option \<Rightarrow> gfloat option
     \<Rightarrow> gfloat option \<times> gfloat option" where
  "st_scroll_view_get_preferred_width env priv for_height min_width_p natural_width_p =
     (if child priv = NULL then (min_width_p, natural_width_p)
      else
        let for_height = theme_adjust_for_height env for_height;
            (child_min_width, child_natural_width) =
               actor_get_preferred_width env (child priv) (Finite (- 1));
            natural_width = child_natural_width;
            min_width =
              (case hscrollbar_policy priv of
                 ST_POLICY_NEVER \<Rightarrow> child_min_width
               | ST_POLICY_ALWAYS \<Rightarrow> Finite 0
               | ST_POLICY_AUTOMATIC \<Rightarrow> Finite 0
               | ST_POLICY_EXTERNAL \<Rightarrow> Finite 0);
            account_for_vscrollbar =
              (case vscrollbar_policy priv of
                 ST_POLICY_NEVER \<Rightarrow> False
               | ST_POLICY_EXTERNAL \<Rightarrow> False
               | ST_POLICY_ALWAYS \<Rightarrow> \<not> overlay_scrollbars priv
               | ST_POLICY_AUTOMATIC \<Rightarrow> \<not> overlay_scrollbars priv);
            (min_width, natural_width) =
              (if account_for_vscrollbar
               then let sb_width = gfloat_of_gdouble (get_scrollbar_width env priv for_height)
                    in (gfloat_add min_width sb_width, gfloat_add natural_width sb_width)
               else (min_width, natural_width))
        in theme_adjust_preferred_width env
             (store min_width_p min_width) (store natural_width_p natural_width))"

text \<open>
  The height query also asks the child for its minimum width and never reads the answer;
  that call leaves no trace here. The early \<^verbatim>\<open>*min_height_p = 0\<close> is kept.
\<close>

definition st_scroll_view_get_preferred_height ::
  "layout_env \<Rightarrow> StScrollViewPrivate \<Rightarrow> gfloat \<Rightarrow> gfloat option \<Rightarrow> gfloat option
     \<Rightarrow> gfloat option \<times> gfloat option" where
  "st_scroll_view_get_preferred_height env priv for_width min_height_p natural_height_p =
     (if child priv = NULL then (min_height_p, natural_height_p)
      else
        let for_width = theme_adjust_for_width env for_width;
            min_height_p = store min_height_p (Finite 0);
            sb_width = gfloat_of_gdouble (get_scrollbar_width env priv (Finite (- 1)));
            for_width =
              (case vscrollbar_policy priv of
                 ST_POLICY_NEVER \<Rightarrow> for_width
               | ST_POLICY_EXTERNAL \<Rightarrow> for_width
               | ST_POLICY_ALWAYS \<Rightarrow> gfloat_sub for_width sb_width
               | ST_POLICY_AUTOMATIC \<Rightarrow> gfloat_sub for_width sb_width);
            account_for_hscrollbar =
              (case hscrollbar_policy priv of
                 ST_POLICY_NEVER \<Rightarrow> False
               | ST_POLICY_EXTERNAL \<Rightarrow> False
               | ST_POLICY_ALWAYS \<Rightarrow> \<not> overlay_scrollbars priv
               | ST_POLICY_AUTOMATIC \<Rightarrow> \<not> overlay_scrollbars priv);
            (child_min_height, child_natural_height) =
               actor_get_preferred_height env (child priv) for_width;
            natural_height = child_natural_height;
            min_height =
              (case vscrollbar_policy priv of
                 ST_POLICY_NEVER \<Rightarrow> child_min_height
               | ST_POLICY_ALWAYS \<Rightarrow> Finite 0
               | ST_POLICY_AUTOMATIC \<Rightarrow> Finite 0
               | ST_POLICY_EXTERNAL \<Rightarrow> Finite 0);
            (min_height, natural_height) =
              (if account_for_hscrollbar
               then let sb_height = gfloat_of_gdouble (get_scrollbar_height env priv for_width)
                    in (gfloat_add min_height sb_height, gfloat_add natural_height sb_height)
               else (min_height, natural_height))
        in theme_adjust_preferred_height env
             (store min_height_p min_height) (store natural_height_p natural_height))"

section \<open>Layout: allocation\<close>

text \<open>
  The scrollbar thickness pair (\<^verbatim>\<open>sb_width\<close>, \<^verbatim>\<open>sb_height\<close>): one scrollbar is asked
  unconstrained, the other for the first one's result; the request mode picks the order.
  Each assignment narrows the helper's \<^verbatim>\<open>double\<close> to the \<^verbatim>\<open>gfloat\<close> variable.
\<close>

definition scrollbar_sizes :: "layout_env \<Rightarrow> StScrollViewPrivate \<Rightarrow> gfloat \<times> gfloat" where
  "scrollbar_sizes env priv =
     (if actor_get_request_mode env = CLUTTER_REQUEST_HEIGHT_FOR_WIDTH
      then let sb_width = gfloat_of_gdouble (get_scrollbar_width env priv (Finite (- 1)));
               sb_height = gfloat_of_gdouble (get_scrollbar_height env priv sb_width)
           in (sb_width, sb_height)
      else let sb_height = gfloat_of_gdouble (get_scrollbar_height env priv (Finite (- 1)));
               sb_width = gfloat_of_gdouble (get_scrollbar_width env priv sb_height)
           in (sb_width, sb_height))"

text \<open>
  "Pass one, try without a vertical scrollbar": the three assignments that follow the
  first measurement of the child, returning (\<^verbatim>\<open>hscrollbar_visible\<close>,
  \<^verbatim>\<open>vscrollbar_visible\<close>).
\<close>

definition pass_one ::
  "gfloat \<Rightarrow> gfloat \<Rightarrow> gfloat \<Rightarrow> gfloat \<Rightarrow> gfloat \<Rightarrow> gfloat \<Rightarrow> bool \<times> bool" where
  "pass_one child_min_width child_min_height avail_width avail_height sb_width sb_height =
     (let vscrollbar_visible = ieee_gt child_min_height avail_height;
          hscrollbar_visible =
            ieee_gt child_min_width
              (gfloat_sub avail_width (if vscrollbar_visible then sb_width else Finite 0));
          vscrollbar_visible =
            ieee_gt child_min_height
              (gfloat_sub avail_height (if hscrollbar_visible then sb_height else Finite 0))
      in (hscrollbar_visible, vscrollbar_visible))"

text \<open>
  "Determine what scrollbars are visible": the result is (\<^verbatim>\<open>hscrollbar_visible\<close>,
  \<^verbatim>\<open>vscrollbar_visible\<close>, the widths at which the child's preferred height was
  requested, in order).
\<close>

definition determine_visible ::
  "layout_env \<Rightarrow> StScrollViewPrivate \<Rightarrow> gfloat \<Rightarrow> gfloat \<Rightarrow> gfloat \<Rightarrow> gfloat
     \<Rightarrow> bool \<times> bool \<times> gfloat list" where
  "determine_visible env priv avail_width avail_height sb_width sb_height =
     (if child priv \<noteq> NULL then
        let child_min_width = fst (actor_get_preferred_width env (child priv) (Finite (- 1))) in
        if vscrollbar_policy priv = ST_POLICY_AUTOMATIC then
          if hscrollbar_policy priv = ST_POLICY_AUTOMATIC then
            let child_min_height = fst (actor_get_preferred_height env (child priv) avail_width);
                (hscrollbar_visible, vscrollbar_visible) =
                   pass_one child_min_width child_min_height avail_width avail_height
                     sb_width sb_height
            in if vscrollbar_visible
               then (ieee_gt child_min_width (gfloat_sub avail_width sb_width),
                     vscrollbar_visible,
                     [avail_width, MAX_gfloat (gfloat_sub avail_width sb_width) (Finite 0)])
               else (hscrollbar_visible, vscrollbar_visible, [avail_width])
          else
            let hscrollbar_visible = (hscrollbar_policy priv = ST_POLICY_ALWAYS);
                child_min_height = fst (actor_get_preferred_height env (child priv) avail_width);
                vscrollbar_visible =
                  ieee_gt child_min_height
                    (gfloat_sub avail_height (if hscrollbar_visible then sb_height else Finite 0))
            in (hscrollbar_visible, vscrollbar_visible, [avail_width])
        else
          let vscrollbar_visible = (vscrollbar_policy priv = ST_POLICY_ALWAYS);
              hscrollbar_visible =
                (if hscrollbar_policy priv = ST_POLICY_AUTOMATIC
                 then ieee_gt child_min_width
                        (gfloat_sub avail_height (if vscrollbar_visible then Finite 0 else sb_width))
                 else hscrollbar_policy priv = ST_POLICY_ALWAYS)
          in (hscrollbar_visible, vscrollbar_visible, [])
      else
        (hscrollbar_policy priv \<noteq> ST_POLICY_NEVER \<and> hscrollbar_policy priv \<noteq> ST_POLICY_EXTERNAL,
         vscrollbar_policy priv \<noteq> ST_POLICY_NEVER \<and> vscrollbar_policy priv \<noteq> ST_POLICY_EXTERNAL,
         []))"

text \<open>The three sub-boxes, as functions of the content box and the decisions above.\<close>

definition vscroll_box ::
  "bool \<Rightarrow> ClutterActorBox \<Rightarrow> gfloat \<Rightarrow> gfloat \<Rightarrow> bool \<Rightarrow> ClutterActorBox" where
  "vscroll_box rtl content_box sb_width sb_height hscrollbar_visible' =
     \<lparr>x1 = (if rtl then x1 content_box else gfloat_sub (x2 content_box) sb_width),
      y1 = y1 content_box,
      x2 = (if rtl then gfloat_add (x1 content_box) sb_width else x2 content_box),
      y2 = gfloat_sub (y2 content_box) (if hscrollbar_visible' then sb_height else Finite 0)\<rparr>"

definition hscroll_box ::
  "bool \<Rightarrow> ClutterActorBox \<Rightarrow> gfloat \<Rightarrow> gfloat \<Rightarrow> bool \<Rightarrow> ClutterActorBox" where
  "hscroll_box rtl content_box sb_width sb_height vscrollbar_visible' =
     \<lparr>x1 = (if rtl
            then gfloat_add (x1 content_box) (if vscrollbar_visible' then sb_width else Finite 0)
            else x1 content_box),
      y1 = gfloat_sub (y2 content_box) sb_height,
      x2 = (if rtl then x2 content_box
            else gfloat_sub (x2 content_box) (if vscrollbar_visible' then sb_width else Finite 0)),
      y2 = y2 content_box\<rparr>"

definition child_box :: "bool \<Rightarrow> ClutterActorBox \<Rightarrow> gfloat \<Rightarrow> gfloat \<Rightarrow> ClutterActorBox" where
  "child_box rtl content_box sb_width sb_height =
     \<lparr>x1 = (if rtl then gfloat_add (x1 content_box) sb_width else x1 content_box),
      y1 = y1 content_box,
      x2 = (if rtl then x2 content_box else gfloat_sub (x2 content_box) sb_width),
      y2 = gfloat_sub (y2 content_box) sb_height\<rparr>"

text \<open>
  What one \<^verbatim>\<open>st_scroll_view_allocate\<close> call does: the private state afterwards, the widths
  at which it measured the child's height, the boxes handed to \<^verbatim>\<open>clutter_actor_allocate\<close>
  for the vertical scrollbar, the horizontal scrollbar and (when there is one) the child,
  and the property notifications, in program order.
\<close>

record allocate_result =
  priv_after :: StScrollViewPrivate
  height_probes :: "gfloat list"
  vscroll_allocation :: ClutterActorBox
  hscroll_allocation :: ClutterActorBox
  child_allocation :: "ClutterActorBox option"
  notifications :: "signal list"

definition st_scroll_view_allocate ::
  "layout_env \<Rightarrow> StScrollViewPrivate \<Rightarrow> ClutterActorBox \<Rightarrow> allocate_result" where
  "st_scroll_view_allocate env priv box =
     (let content_box = theme_get_content_box env box;
          avail_width = gfloat_sub (x2 content_box) (x1 content_box);
          avail_height = gfloat_sub (y2 content_box) (y1 content_box);
          (sb_width, sb_height) = scrollbar_sizes env priv;
          (hscrollbar_visible', vscrollbar_visible', probes) =
             determine_visible env priv avail_width avail_height sb_width sb_height;
          rtl = (actor_get_text_direction env = CLUTTER_TEXT_DIRECTION_RTL);
          vbox = vscroll_box rtl content_box sb_width sb_height hscrollbar_visible';
          hbox = hscroll_box rtl content_box sb_width sb_height vscrollbar_visible';
          sb_height =
            (if hscrollbar_policy priv = ST_POLICY_NEVER \<or>
                hscrollbar_policy priv = ST_POLICY_EXTERNAL \<or> overlay_scrollbars priv
             then Finite 0 else sb_height);
          sb_width =
            (if vscrollbar_policy priv = ST_POLICY_NEVER \<or>
                vscrollbar_policy priv = ST_POLICY_EXTERNAL \<or> overlay_scrollbars priv
             then Finite 0 else sb_width);
          cbox = child_box rtl content_box sb_width sb_height;
          (priv, notes_h) =
             (if hscrollbar_visible priv \<noteq> hscrollbar_visible'
              then (priv\<lparr>hscrollbar_visible := hscrollbar_visible'\<rparr>,
                    [FreezeNotify, Notify PROP_HSCROLLBAR_VISIBLE, ThawNotify])
              else (priv, []));
          (priv, notes_v) =
             (if vscrollbar_visible priv \<noteq> vscrollbar_visible'
              then (priv\<lparr>vscrollbar_visible := vscrollbar_visible'\<rparr>,
                    [FreezeNotify, Notify PROP_VSCROLLBAR_VISIBLE, ThawNotify])
              else (priv, []))
      in \<lparr>priv_after = priv,
          height_probes = probes,
          vscroll_allocation = vbox,
          hscroll_allocation = hbox,
          child_allocation = (if child priv \<noteq> NULL then Some cbox else None),
          notifications = notes_h @ notes_v\<rparr>)"

section \<open>A concrete scroll view\<close>

text \<open>
  The state \<^verbatim>\<open>st_scroll_view_init\<close> leaves behind (both policies automatic, mouse
  scrolling on), with a scrollable child at address 1 and the scrollbars at 2 and 3.
\<close>

definition initial_view :: StScrollViewPrivate where
  "initial_view =
     \<lparr>child = 1, hadjustment = \<lparr>step_increment = Finite 0\<rparr>, hscroll = 2,
      vadjustment = \<lparr>step_increment = Finite 0\<rparr>, vscroll = 3,
      hscrollbar_policy = ST_POLICY_AUTOMATIC, vscrollbar_policy = ST_POLICY_AUTOMATIC,
      row_size = Finite 0, column_size = Finite 0, fade_effect = False,
      row_size_set = False, column_size_set = False, mouse_scroll = True,
      overlay_scrollbars = False, hscrollbar_visible = False, vscrollbar_visible = False\<rparr>"

text \<open>
  Collaborators for the concrete runs: a theme with a one-pixel frame on every side, both
  scrollbars of the given thickness and shown or hidden together, left-to-right text,
  height-for-width requests, and a child (address 1) with the given (minimum, natural)
  width and a minimum height that may depend on the width it is measured at.
\<close>

definition framed_env ::
  "bool \<Rightarrow> gfloat \<Rightarrow> gfloat \<times> gfloat \<Rightarrow> (gfloat \<Rightarrow> gfloat) \<Rightarrow> layout_env" where
  "framed_env bars_shown bar_size child_width child_min_height =
     \<lparr>actor_is_visible = (\<lambda>a. bars_shown),
      actor_get_preferred_width =
        (\<lambda>a for_height. if a = 1 then child_width else (bar_size, bar_size)),
      actor_get_preferred_height =
        (\<lambda>a for_width. if a = 1 then (child_min_height for_width, Finite 500)
                        else (bar_size, bar_size)),
      actor_get_request_mode = CLUTTER_REQUEST_HEIGHT_FOR_WIDTH,
      actor_get_text_direction = CLUTTER_TEXT_DIRECTION_LTR,
      theme_adjust_for_height =
        (\<lambda>h. if ieee_lt h (Finite 0) then h
             else MAX_gfloat (gfloat_sub h (Finite 2)) (Finite 0)),
      theme_adjust_for_width =
        (\<lambda>w. if ieee_lt w (Finite 0) then w
             else MAX_gfloat (gfloat_sub w (Finite 2)) (Finite 0)),
      theme_adjust_preferred_width =
        (\<lambda>min_p nat_p. (map_option (\<lambda>m. gfloat_add m (Finite 2)) min_p,
                        map_option (\<lambda>n. gfloat_add n (Finite 2)) nat_p)),
      theme_adjust_preferred_height =
        (\<lambda>min_p nat_p. (map_option (\<lambda>m. gfloat_add m (Finite 2)) min_p,
                        map_option (\<lambda>n. gfloat_add n (Finite 2)) nat_p)),
      theme_get_content_box =
        (\<lambda>b. \<lparr>x1 = gfloat_add (x1 b) (Finite 1), y1 = gfloat_add (y1 b) (Finite 1),
              x2 = gfloat_sub (x2 b) (Finite 1), y2 = gfloat_sub (y2 b) (Finite 1)\<rparr>)\<rparr>"

text \<open>
  The binary32 values nearest to 16.3, 283.7 and 400.1 (what the C literals \<^verbatim>\<open>16.3f\<close>,
  \<^verbatim>\<open>283.7f\<close> and \<^verbatim>\<open>400.1f\<close> denote).
\<close>

definition f16_3 :: gfloat where
  "f16_3 = Finite (4272947 / 262144)"

definition f283_7 :: gfloat where
  "f283_7 = Finite (4648141 / 16384)"

definition f400_1 :: gfloat where
  "f400_1 = Finite (13110477 / 32768)"


section \<open>Facts about binary32 rounding\<close>

lemma pow2_less_iff: "pow2 m < pow2 n \<longleftrightarrow> m < n"
proof
  assume "pow2 m < pow2 n"
  show "m < n"
  proof (rule ccontr)
    assume "\<not> m < n"
    then have "pow2 n \<le> pow2 m" unfolding pow2_def by (intro power_int_increasing) simp_all
    with \<open>pow2 m < pow2 n\<close> show False by simp
  qed
next
  assume "m < n"
  then show "pow2 m < pow2 n" unfolding pow2_def by (intro power_int_strict_increasing) simp_all
qed

lemma pow2_le_iff: "pow2 m \<le> pow2 n \<longleftrightarrow> m \<le> n"
  using pow2_less_iff [of n m] by (simp add: not_less [symmetric])

lemma expo_from_unique:
  "- 126 \<le> k \<Longrightarrow> k \<le> int n - 126 \<Longrightarrow> pow2 k \<le> a \<Longrightarrow> a < pow2 (k + 1) \<Longrightarrow>
   expo_from n a = k"
proof (induction n)
  case 0
  then show ?case by simp
next
  case (Suc n)
  show ?case
  proof (cases "pow2 (int (Suc n) - 126) \<le> a")
    case True
    with Suc.prems(4) have "pow2 (int (Suc n) - 126) < pow2 (k + 1)" by linarith
    then have "int (Suc n) - 126 < k + 1"
      by (simp add: pow2_less_iff)
    with Suc.prems(2) True show ?thesis by simp
  next
    case False
    with Suc.prems(3) have "k \<noteq> int (Suc n) - 126" by auto
    with Suc.prems(2) have "k \<le> int n - 126" by simp
    with Suc.IH Suc.prems False show ?thesis by simp
  qed
qed

lemma expo_unique:
  "- 126 \<le> k \<Longrightarrow> k \<le> 127 \<Longrightarrow> pow2 k \<le> a \<Longrightarrow> a < pow2 (k + 1) \<Longrightarrow> expo a = k"
  unfolding expo_def by (rule expo_from_unique) simp_all

lemma expo_from_small: "a < pow2 (- 126) \<Longrightarrow> expo_from n a = - 126"
proof (induction n)
  case 0
  then show ?case by simp
next
  case (Suc n)
  have "pow2 (- 126) \<le> pow2 (int (Suc n) - 126)"
    by (simp add: pow2_le_iff)
  with Suc show ?case by simp
qed

lemma expo_small: "a < pow2 (- 126) \<Longrightarrow> expo a = - 126"
  unfolding expo_def by (rule expo_from_small)





lemma round_half_even_of_int [simp]: "round_half_even (of_int m) = m"
  by (simp add: round_half_even_def)




lemma pow2_pos [simp]: "0 < pow2 e"
  unfolding pow2_def by (rule zero_less_power_int) simp

lemma pow2_nonzero [simp]: "pow2 e \<noteq> 0"
  by (metis pow2_pos less_irrefl)

lemma pow2_add: "pow2 (m + n) = pow2 m * pow2 n"
  unfolding pow2_def by (rule power_int_add) simp







lemma round32_normal_fixed:
  assumes "- 126 \<le> k" and "k \<le> 127" and "pow2 k \<le> \<bar>x\<bar>" and "\<bar>x\<bar> < pow2 (k + 1)"
    and "x = of_int m * pow2 (k - 23)"
  shows "round32 x = Finite x"
proof -
  have e: "expo \<bar>x\<bar> = k" using assms(1-4) by (rule expo_unique)
  have d: "x / pow2 (k - 23) = of_int m" using assms(5) by simp
  have "pow2 (k + 1) \<le> pow2 128" using assms(2) by (simp add: pow2_le_iff)
  with assms(4) have "\<not> pow2 128 \<le> \<bar>x\<bar>" by simp
  then show ?thesis
    unfolding round32_def Let_def e d round_half_even_of_int assms(5) [symmetric] by simp
qed

lemma round32_subnormal_fixed:
  assumes "\<bar>x\<bar> < pow2 (- 126)" and "x = of_int m * pow2 (- 149)"
  shows "round32 x = Finite x"
proof -
  have e: "expo \<bar>x\<bar> - 23 = - 149" using expo_small [OF assms(1)] by simp
  have d: "x / pow2 (- 149) = of_int m" using assms(2) by simp
  have "pow2 (- 126) \<le> pow2 128" by (simp add: pow2_le_iff)
  with assms(1) have "\<not> pow2 128 \<le> \<bar>x\<bar>" by simp
  then show ?thesis
    unfolding round32_def Let_def e d round_half_even_of_int assms(2) [symmetric] by simp
qed


text \<open>Integers of magnitude below \<open>2 ^ 24\<close> are binary32 values.\<close>

lemma round32_of_int:
  assumes "\<bar>n\<bar> < 16777216"
  shows "round32 (of_int n) = Finite (of_int n)"
proof (cases "n = 0")
  case True
  have "round32 0 = Finite 0"
    by (rule round32_subnormal_fixed [of 0 0]) simp_all
  with True show ?thesis by simp
next
  case False
  then have "1 \<le> nat \<bar>n\<bar>" by simp
  from ex_power_ivl1 [OF order_refl this]
  obtain k where k: "2 ^ k \<le> nat \<bar>n\<bar>" "nat \<bar>n\<bar> < 2 ^ (k + 1)" by blast
  from assms have "nat \<bar>n\<bar> < 16777216" by linarith
  with k(1) have lt: "(2::nat) ^ k < 16777216" by linarith
  have k24: "k < 24"
  proof (rule ccontr)
    assume "\<not> k < 24"
    then have "(2::nat) ^ 24 \<le> 2 ^ k" by (intro power_increasing) simp_all
    with lt show False by simp
  qed
  have absn: "\<bar>real_of_int n\<bar> = real (nat \<bar>n\<bar>)" by simp
  have p: "pow2 (int j) = real (2 ^ j)" for j by (simp add: pow2_def)
  have low: "pow2 (int k) \<le> \<bar>real_of_int n\<bar>"
    unfolding absn p using k(1) by (simp only: of_nat_le_iff)
  have upp: "\<bar>real_of_int n\<bar> < pow2 (int k + 1)"
    using k(2) p [of "k + 1"] unfolding absn by (simp only: of_nat_less_iff of_nat_add of_nat_1)
  have "pow2 (int (23 - k)) * pow2 (int k - 23) = pow2 0"
    using pow2_add [of "int (23 - k)" "int k - 23"] k24 by simp
  then have "pow2 (int (23 - k)) * pow2 (int k - 23) = 1" by (simp add: pow2_def)
  then have rep: "real_of_int n = of_int (n * 2 ^ (23 - k)) * pow2 (int k - 23)"
    by (simp add: p mult.assoc)
  show ?thesis
    by (rule round32_normal_fixed [OF _ _ low upp rep]) (use k24 in simp_all)
qed

lemma round32_numeral [simp]:
  "(numeral w :: int) < 16777216 \<Longrightarrow> round32 (numeral w) = Finite (numeral w)"
  using round32_of_int [of "numeral w"] by simp

lemma round32_neg_numeral [simp]:
  "(numeral w :: int) < 16777216 \<Longrightarrow> round32 (- numeral w) = Finite (- numeral w)"
  using round32_of_int [of "- numeral w"] by simp

lemma round32_zero [simp]: "round32 0 = Finite 0"
  using round32_of_int [of 0] by simp

lemma round32_one [simp]: "round32 1 = Finite 1"
  using round32_of_int [of 1] by simp


text \<open>Rounding at the particular values of the concrete runs.\<close>

lemma round32_at_exponent:
  assumes "- 126 \<le> k" and "k \<le> 127" and "pow2 k \<le> \<bar>x\<bar>" and "\<bar>x\<bar> < pow2 (k + 1)"
    and "round_half_even (x / pow2 (k - 23)) = r"
    and "\<bar>of_int r * pow2 (k - 23)\<bar> < pow2 128"
  shows "round32 x = Finite (of_int r * pow2 (k - 23))"
proof -
  have "expo \<bar>x\<bar> = k" using assms(1-4) by (rule expo_unique)
  with assms(5,6) show ?thesis by (simp add: round32_def Let_def)
qed

lemma f16_3_nearest: "round32 (163 / 10) = f16_3"
  using round32_at_exponent [of 4 "163 / 10" 8545894]
  by (simp add: pow2_def round_half_even_def Let_def f16_3_def)

lemma f283_7_nearest: "round32 (2837 / 10) = f283_7"
  using round32_at_exponent [of 8 "2837 / 10" 9296282]
  by (simp add: pow2_def round_half_even_def Let_def f283_7_def)

lemma f400_1_nearest: "round32 (4001 / 10) = f400_1"
  using round32_at_exponent [of 8 "4001 / 10" 13110477]
  by (simp add: pow2_def round_half_even_def Let_def f400_1_def)

lemma narrow_f16_3 [simp]: "gfloat_of_gdouble f16_3 = f16_3"
  using round32_at_exponent [of 4 "4272947 / 262144" 8545894]
  by (simp add: pow2_def round_half_even_def Let_def f16_3_def)

lemma sub_300_f16_3 [simp]: "gfloat_sub (Finite 300) f16_3 = f283_7"
  using round32_at_exponent [of 8 "300 - 4272947 / 262144" 9296282]
  by (simp add: pow2_def round_half_even_def Let_def f16_3_def f283_7_def)

lemma add_0_f16_3 [simp]: "gfloat_add (Finite 0) f16_3 = f16_3"
  using round32_at_exponent [of 4 "4272947 / 262144" 8545894]
  by (simp add: pow2_def round_half_even_def Let_def f16_3_def)

lemma add_f400_1_f16_3 [simp]: "gfloat_add f400_1 f16_3 = Finite (13644595 / 32768)"
  using round32_at_exponent [of 8 "13110477 / 32768 + 4272947 / 262144" 13644595]
  by (simp add: pow2_def round_half_even_def Let_def f16_3_def f400_1_def)

lemma add_f16_3_2 [simp]: "gfloat_add f16_3 (Finite 2) = Finite (4797235 / 262144)"
  using round32_at_exponent [of 4 "4272947 / 262144 + 2" 9594470]
  by (simp add: pow2_def round_half_even_def Let_def f16_3_def)

lemma round32_sum_plus_2 [simp]: "round32 (13710131 / 32768) = Finite (13710131 / 32768)"
  using round32_at_exponent [of 8 "13710131 / 32768" 13710131]
  by (simp add: pow2_def round_half_even_def Let_def)

lemma ieee_gt_irrefl [simp]: "\<not> ieee_gt a a"
  by (cases a) simp_all

lemma f283_7_positive [simp]: "ieee_gt f283_7 (Finite 0)"
  by (simp add: f283_7_def)

section \<open>Auxiliary facts about allocation\<close>

text \<open>The stored visibility flags after a call are the ones the call computed.\<close>

lemma allocate_flags:
  "hscrollbar_visible (priv_after (st_scroll_view_allocate env priv box)) =
     fst (determine_visible env priv
        (gfloat_sub (x2 (theme_get_content_box env box)) (x1 (theme_get_content_box env box)))
        (gfloat_sub (y2 (theme_get_content_box env box)) (y1 (theme_get_content_box env box)))
        (fst (scrollbar_sizes env priv)) (snd (scrollbar_sizes env priv)))"
  "vscrollbar_visible (priv_after (st_scroll_view_allocate env priv box)) =
     fst (snd (determine_visible env priv
        (gfloat_sub (x2 (theme_get_content_box env box)) (x1 (theme_get_content_box env box)))
        (gfloat_sub (y2 (theme_get_content_box env box)) (y1 (theme_get_content_box env box)))
        (fst (scrollbar_sizes env priv)) (snd (scrollbar_sizes env priv))))"
  by (auto simp add: st_scroll_view_allocate_def Let_def case_prod_beta)


text \<open>Nothing the allocation computes reads the stored visibility flags.\<close>

lemma flags_irrelevant_sizes [simp]:
  "scrollbar_sizes env (priv\<lparr>hscrollbar_visible := a\<rparr>) = scrollbar_sizes env priv"
  "scrollbar_sizes env (priv\<lparr>vscrollbar_visible := b\<rparr>) = scrollbar_sizes env priv"
  by (simp_all add: scrollbar_sizes_def get_scrollbar_width_def get_scrollbar_height_def)

lemma flags_irrelevant_visible [simp]:
  "determine_visible env (priv\<lparr>hscrollbar_visible := a\<rparr>) aw ah sw sh
     = determine_visible env priv aw ah sw sh"
  "determine_visible env (priv\<lparr>vscrollbar_visible := b\<rparr>) aw ah sw sh
     = determine_visible env priv aw ah sw sh"
  by (simp_all add: determine_visible_def Let_def)






lemmas framed_eval =
  framed_env_def initial_view_def NULL_def scrollbar_sizes_def get_scrollbar_width_def
  get_scrollbar_height_def determine_visible_def pass_one_def Let_def
  gdouble_of_gfloat_def MAX_gfloat_def ieee_lt_def store_def

section \<open>Properties\<close>




text \<open>
  C2 (what the code does). Content box 300 by 200, scrollbars 16 thick, child minimum
  width 190, horizontal policy automatic. With the vertical policy ALWAYS the vertical
  scrollbar is visible and the horizontal one is not: 190 is compared with 200 - 0. With
  the vertical policy NEVER the vertical scrollbar is hidden and the horizontal one is
  visible: 190 is compared with 200 - 16. The allowance is subtracted exactly when the
  vertical scrollbar is not visible, the opposite of the branch for two automatic
  policies.
\<close>

theorem horizontal_only_automatic_inverted:
  "vscrollbar_visible (priv_after (st_scroll_view_allocate
      (framed_env True (Finite 16) (Finite 190, Finite 400) (\<lambda>w. Finite 100))
      (initial_view\<lparr>vscrollbar_policy := ST_POLICY_ALWAYS\<rparr>)
      \<lparr>x1 = Finite 0, y1 = Finite 0, x2 = Finite 302, y2 = Finite 202\<rparr>)) = True \<and>
   hscrollbar_visible (priv_after (st_scroll_view_allocate
      (framed_env True (Finite 16) (Finite 190, Finite 400) (\<lambda>w. Finite 100))
      (initial_view\<lparr>vscrollbar_policy := ST_POLICY_ALWAYS\<rparr>)
      \<lparr>x1 = Finite 0, y1 = Finite 0, x2 = Finite 302, y2 = Finite 202\<rparr>)) = False \<and>
   vscrollbar_visible (priv_after (st_scroll_view_allocate
      (framed_env True (Finite 16) (Finite 190, Finite 400) (\<lambda>w. Finite 100))
      (initial_view\<lparr>vscrollbar_policy := ST_POLICY_NEVER\<rparr>)
      \<lparr>x1 = Finite 0, y1 = Finite 0, x2 = Finite 302, y2 = Finite 202\<rparr>)) = False \<and>
   hscrollbar_visible (priv_after (st_scroll_view_allocate
      (framed_env True (Finite 16) (Finite 190, Finite 400) (\<lambda>w. Finite 100))
      (initial_view\<lparr>vscrollbar_policy := ST_POLICY_NEVER\<rparr>)
      \<lparr>x1 = Finite 0, y1 = Finite 0, x2 = Finite 302, y2 = Finite 202\<rparr>)) = True \<and>
   scrollbar_sizes (framed_env True (Finite 16) (Finite 190, Finite 400) (\<lambda>w. Finite 100))
      (initial_view\<lparr>vscrollbar_policy := ST_POLICY_ALWAYS\<rparr>) = (Finite 16, Finite 16) \<and>
   ieee_gt (Finite 190) (gfloat_sub (Finite 200) (Finite 16)) = True \<and>
   ieee_gt (Finite 190) (Finite 200) = False"
  unfolding allocate_flags by (simp add: framed_eval)

text \<open>
  C3. For every allocate call and every policy pair, with or without a child, the
  visibility flag of an axis is true when its policy is ALWAYS and false when its policy
  is NEVER or EXTERNAL; without a child each flag is true exactly when its axis's policy
  is neither NEVER nor EXTERNAL.
\<close>

theorem visibility_respects_policy:
  "(hscrollbar_policy priv = ST_POLICY_ALWAYS \<longrightarrow>
      hscrollbar_visible (priv_after (st_scroll_view_allocate env priv box))) \<and>
   (hscrollbar_policy priv = ST_POLICY_NEVER \<or> hscrollbar_policy priv = ST_POLICY_EXTERNAL \<longrightarrow>
      \<not> hscrollbar_visible (priv_after (st_scroll_view_allocate env priv box))) \<and>
   (vscrollbar_policy priv = ST_POLICY_ALWAYS \<longrightarrow>
      vscrollbar_visible (priv_after (st_scroll_view_allocate env priv box))) \<and>
   (vscrollbar_policy priv = ST_POLICY_NEVER \<or> vscrollbar_policy priv = ST_POLICY_EXTERNAL \<longrightarrow>
      \<not> vscrollbar_visible (priv_after (st_scroll_view_allocate env priv box))) \<and>
   (child priv = NULL \<longrightarrow>
      hscrollbar_visible (priv_after (st_scroll_view_allocate env priv box)) =
        (hscrollbar_policy priv \<noteq> ST_POLICY_NEVER \<and> hscrollbar_policy priv \<noteq> ST_POLICY_EXTERNAL) \<and>
      vscrollbar_visible (priv_after (st_scroll_view_allocate env priv box)) =
        (vscrollbar_policy priv \<noteq> ST_POLICY_NEVER \<and> vscrollbar_policy priv \<noteq> ST_POLICY_EXTERNAL))"
  by (simp add: allocate_flags determine_visible_def Let_def case_prod_beta)

theorem visibility_respects_policy_witness:
  "hscrollbar_policy (initial_view\<lparr>hscrollbar_policy := ST_POLICY_ALWAYS,
                                  vscrollbar_policy := ST_POLICY_NEVER\<rparr>) = ST_POLICY_ALWAYS \<and>
   vscrollbar_policy (initial_view\<lparr>hscrollbar_policy := ST_POLICY_ALWAYS,
                                  vscrollbar_policy := ST_POLICY_NEVER\<rparr>) = ST_POLICY_NEVER \<and>
   hscrollbar_visible (priv_after (st_scroll_view_allocate
      (framed_env True (Finite 16) (Finite 290, Finite 400) (\<lambda>w. Finite 250))
      (initial_view\<lparr>hscrollbar_policy := ST_POLICY_ALWAYS, vscrollbar_policy := ST_POLICY_NEVER\<rparr>)
      \<lparr>x1 = Finite 0, y1 = Finite 0, x2 = Finite 302, y2 = Finite 202\<rparr>)) \<and>
   \<not> vscrollbar_visible (priv_after (st_scroll_view_allocate
      (framed_env True (Finite 16) (Finite 290, Finite 400) (\<lambda>w. Finite 250))
      (initial_view\<lparr>hscrollbar_policy := ST_POLICY_ALWAYS, vscrollbar_policy := ST_POLICY_NEVER\<rparr>)
      \<lparr>x1 = Finite 0, y1 = Finite 0, x2 = Finite 302, y2 = Finite 202\<rparr>)) \<and>
   child (initial_view\<lparr>child := NULL, hscrollbar_policy := ST_POLICY_EXTERNAL,
                       vscrollbar_policy := ST_POLICY_ALWAYS\<rparr>) = NULL \<and>
   \<not> hscrollbar_visible (priv_after (st_scroll_view_allocate
      (framed_env True (Finite 16) (Finite 290, Finite 400) (\<lambda>w. Finite 250))
      (initial_view\<lparr>child := NULL, hscrollbar_policy := ST_POLICY_EXTERNAL,
                    vscrollbar_policy := ST_POLICY_ALWAYS\<rparr>)
      \<lparr>x1 = Finite 0, y1 = Finite 0, x2 = Finite 302, y2 = Finite 202\<rparr>)) \<and>
   vscrollbar_visible (priv_after (st_scroll_view_allocate
      (framed_env True (Finite 16) (Finite 290, Finite 400) (\<lambda>w. Finite 250))
      (initial_view\<lparr>child := NULL, hscrollbar_policy := ST_POLICY_EXTERNAL,
                    vscrollbar_policy := ST_POLICY_ALWAYS\<rparr>)
      \<lparr>x1 = Finite 0, y1 = Finite 0, x2 = Finite 302, y2 = Finite 202\<rparr>))"
  using visibility_respects_policy [of
          "initial_view\<lparr>hscrollbar_policy := ST_POLICY_ALWAYS, vscrollbar_policy := ST_POLICY_NEVER\<rparr>"
          "framed_env True (Finite 16) (Finite 290, Finite 400) (\<lambda>w. Finite 250)"
          "\<lparr>x1 = Finite 0, y1 = Finite 0, x2 = Finite 302, y2 = Finite 202\<rparr>"]
        visibility_respects_policy [of
          "initial_view\<lparr>child := NULL, hscrollbar_policy := ST_POLICY_EXTERNAL,
                        vscrollbar_policy := ST_POLICY_ALWAYS\<rparr>"
          "framed_env True (Finite 16) (Finite 290, Finite 400) (\<lambda>w. Finite 250)"
          "\<lparr>x1 = Finite 0, y1 = Finite 0, x2 = Finite 302, y2 = Finite 202\<rparr>"]
  by (simp add: initial_view_def)

text \<open>
  C4 (what the code does). Removing an actor that is neither the tracked child nor one of
  the two scrollbars does not stop at the assertion: its condition is a string literal,
  which is always true, so the call goes on to \<^verbatim>\<open>clutter_actor_remove_child\<close> and
  returns normally with the private state unchanged.
\<close>

theorem remove_unknown_actor_no_abort:
  "st_scroll_view_remove initial_view 9 = Inr (initial_view, [ClutterActorRemoveChild 9])"
  by (simp add: st_scroll_view_remove_def initial_view_def g_assert_def
        string_literal_as_condition_def)

text \<open>
  C5 (as stated, refuted). After an explicit column size of 5, a negative column size
  leaves the horizontal adjustment's step increment at 5: the getter returns the last
  explicitly set value, not the step increment the adjustment had before the override.
  The same holds for the row size.
\<close>

theorem negative_size_keeps_last_step_counterexample:
  "st_scroll_view_get_column_size
     (st_scroll_view_set_column_size (st_scroll_view_set_column_size initial_view (Finite 5))
        (Finite (- 1))) = Finite 5 \<and>
   st_scroll_view_get_column_size initial_view = Finite 0 \<and>
   st_scroll_view_get_row_size
     (st_scroll_view_set_row_size (st_scroll_view_set_row_size initial_view (Finite 5))
        (Finite (- 1))) = Finite 5 \<and>
   st_scroll_view_get_row_size initial_view = Finite 0"
  by (simp add: st_scroll_view_get_column_size_def st_scroll_view_set_column_size_def
        st_scroll_view_get_row_size_def st_scroll_view_set_row_size_def initial_view_def
        ieee_lt_def gdouble_of_gfloat_def)

text \<open>
  C5 (amended). For every negative input, \<^verbatim>\<open>set_column_size\<close> (\<^verbatim>\<open>set_row_size\<close>) marks
  the override unset, stores the sentinel -1, and leaves the adjustment untouched, so a
  following \<^verbatim>\<open>get_column_size\<close> (\<^verbatim>\<open>get_row_size\<close>) returns the step increment the
  adjustment had before the call.
\<close>

theorem negative_size_unsets_override:
  "ieee_lt c (Finite 0) \<Longrightarrow>
     st_scroll_view_set_column_size priv c
       = priv\<lparr>column_size_set := False, column_size := Finite (- 1)\<rparr> \<and>
     st_scroll_view_get_column_size (st_scroll_view_set_column_size priv c)
       = st_scroll_view_get_column_size priv \<and>
     st_scroll_view_set_row_size priv c
       = priv\<lparr>row_size_set := False, row_size := Finite (- 1)\<rparr> \<and>
     st_scroll_view_get_row_size (st_scroll_view_set_row_size priv c)
       = st_scroll_view_get_row_size priv"
  by (simp add: st_scroll_view_get_column_size_def st_scroll_view_set_column_size_def
        st_scroll_view_get_row_size_def st_scroll_view_set_row_size_def)

theorem negative_size_unsets_override_witness:
  "ieee_lt (Finite (- 1)) (Finite 0) \<and>
   st_scroll_view_set_column_size (st_scroll_view_set_column_size initial_view (Finite 5))
       (Finite (- 1))
     = (st_scroll_view_set_column_size initial_view (Finite 5))
         \<lparr>column_size_set := False, column_size := Finite (- 1)\<rparr> \<and>
   st_scroll_view_get_column_size
     (st_scroll_view_set_column_size (st_scroll_view_set_column_size initial_view (Finite 5))
        (Finite (- 1)))
     = st_scroll_view_get_column_size (st_scroll_view_set_column_size initial_view (Finite 5)) \<and>
   st_scroll_view_get_column_size (st_scroll_view_set_column_size initial_view (Finite 5))
     = Finite 5"
  using negative_size_unsets_override
          [of "Finite (- 1)" "st_scroll_view_set_column_size initial_view (Finite 5)"]
  by (simp add: st_scroll_view_get_column_size_def st_scroll_view_set_column_size_def
        initial_view_def ieee_lt_def gdouble_of_gfloat_def)

text \<open>
  C6 (as stated, refuted). Child present, vertical policy automatic, no overlay, and a
  vertical scrollbar whose preferred width is 16 but which is currently hidden: the
  reported widths are the child's (0 and 400) plus the theme's 2, with no 16 added.
\<close>

theorem hidden_scrollbar_adds_nothing_counterexample:
  "child initial_view \<noteq> NULL \<and>
   vscrollbar_policy initial_view = ST_POLICY_AUTOMATIC \<and>
   \<not> overlay_scrollbars initial_view \<and>
   fst (actor_get_preferred_width
          (framed_env False (Finite 16) (Finite 290, Finite 400) (\<lambda>w. Finite 250))
          (vscroll initial_view) (Finite (- 1))) = Finite 16 \<and>
   st_scroll_view_get_preferred_width
     (framed_env False (Finite 16) (Finite 290, Finite 400) (\<lambda>w. Finite 250)) initial_view
     (Finite (- 1)) (Some (Finite 0)) (Some (Finite 0))
     = (Some (Finite 2), Some (Finite 402)) \<and>
   (Some (Finite 2), Some (Finite 402)) \<noteq>
     (Some (gfloat_add (gfloat_add (Finite 0) (Finite 16)) (Finite 2)),
      Some (gfloat_add (gfloat_add (Finite 400) (Finite 16)) (Finite 2)))"
  by (simp add: st_scroll_view_get_preferred_width_def framed_eval)

text \<open>
  C6 (amended). For every preferred-width query with a child present: the minimum width
  is the child's minimum width when the horizontal policy is NEVER and 0 otherwise; the
  natural width is the child's natural width; and exactly when the vertical policy is
  ALWAYS or AUTOMATIC and overlay-scrollbars is false, an allowance is added to both by
  \<^verbatim>\<open>gfloat\<close> addition (rounded to binary32): the vertical scrollbar's preferred minimum
  width for the theme-adjusted height if that scrollbar actor is currently visible, and 0
  if it is hidden. The results are written through the non-null output pointers and then
  passed to the theme's adjustment.

  The witness includes a child of natural width 400.1f with a scrollbar 16.3f wide: the
  rounded sum plus the theme's 2 is 13710131 / 32768, not the exact sum.
\<close>

theorem preferred_width_policy:
  "child priv \<noteq> NULL \<Longrightarrow>
     st_scroll_view_get_preferred_width env priv for_height min_width_p natural_width_p =
       (let (child_min_width, child_natural_width) =
               actor_get_preferred_width env (child priv) (Finite (- 1));
            min_width =
              (if hscrollbar_policy priv = ST_POLICY_NEVER then child_min_width else Finite 0);
            sb_width =
              gfloat_of_gdouble
                (if actor_is_visible env (vscroll priv)
                 then gdouble_of_gfloat
                        (fst (actor_get_preferred_width env (vscroll priv)
                                (theme_adjust_for_height env for_height)))
                 else Finite 0)
        in if (vscrollbar_policy priv = ST_POLICY_ALWAYS \<or>
               vscrollbar_policy priv = ST_POLICY_AUTOMATIC) \<and> \<not> overlay_scrollbars priv
           then theme_adjust_preferred_width env
                  (store min_width_p (gfloat_add min_width sb_width))
                  (store natural_width_p (gfloat_add child_natural_width sb_width))
           else theme_adjust_preferred_width env
                  (store min_width_p min_width)
                  (store natural_width_p child_natural_width))"
  by (cases "hscrollbar_policy priv"; cases "vscrollbar_policy priv")
     (simp_all add: st_scroll_view_get_preferred_width_def get_scrollbar_width_def Let_def
        case_prod_beta)

theorem preferred_width_policy_witness:
  "child initial_view \<noteq> NULL \<and>
   st_scroll_view_get_preferred_width
     (framed_env True (Finite 16) (Finite 290, Finite 400) (\<lambda>w. Finite 250)) initial_view
     (Finite (- 1)) (Some (Finite 0)) (Some (Finite 0))
     = (Some (Finite 18), Some (Finite 418)) \<and>
   st_scroll_view_get_preferred_width
     (framed_env True (Finite 16) (Finite 290, Finite 400) (\<lambda>w. Finite 250))
     (initial_view\<lparr>hscrollbar_policy := ST_POLICY_NEVER, vscrollbar_policy := ST_POLICY_EXTERNAL\<rparr>)
     (Finite (- 1)) (Some (Finite 0)) (Some (Finite 0))
     = (Some (Finite 292), Some (Finite 402)) \<and>
   st_scroll_view_get_preferred_width
     (framed_env True f16_3 (Finite 290, f400_1) (\<lambda>w. Finite 250)) initial_view
     (Finite (- 1)) (Some (Finite 0)) (Some (Finite 0))
     = (Some (Finite (4797235 / 262144)), Some (Finite (13710131 / 32768))) \<and>
   (13110477 / 32768 + 4272947 / 262144 + 2 :: real) \<noteq> 13710131 / 32768"
  using preferred_width_policy [of initial_view
          "framed_env True (Finite 16) (Finite 290, Finite 400) (\<lambda>w. Finite 250)"
          "Finite (- 1)" "Some (Finite 0)" "Some (Finite 0)"]
        preferred_width_policy [of
          "initial_view\<lparr>hscrollbar_policy := ST_POLICY_NEVER, vscrollbar_policy := ST_POLICY_EXTERNAL\<rparr>"
          "framed_env True (Finite 16) (Finite 290, Finite 400) (\<lambda>w. Finite 250)"
          "Finite (- 1)" "Some (Finite 0)" "Some (Finite 0)"]
        preferred_width_policy [of initial_view
          "framed_env True f16_3 (Finite 290, f400_1) (\<lambda>w. Finite 250)"
          "Finite (- 1)" "Some (Finite 0)" "Some (Finite 0)"]
  by (simp add: framed_env_def initial_view_def NULL_def store_def gdouble_of_gfloat_def
        ieee_lt_def MAX_gfloat_def)

text \<open>
  C7. For every state and box, a second allocate call with the same box and the same
  collaborators right after the first hands the same boxes to the vertical scrollbar,
  the horizontal scrollbar and the child, leaves both visibility flags (and the rest of
  the private state) as the first call left them, and emits no notification.
\<close>

theorem allocate_idempotent:
  "vscroll_allocation (st_scroll_view_allocate env (priv_after (st_scroll_view_allocate env priv box)) box)
     = vscroll_allocation (st_scroll_view_allocate env priv box) \<and>
   hscroll_allocation (st_scroll_view_allocate env (priv_after (st_scroll_view_allocate env priv box)) box)
     = hscroll_allocation (st_scroll_view_allocate env priv box) \<and>
   child_allocation (st_scroll_view_allocate env (priv_after (st_scroll_view_allocate env priv box)) box)
     = child_allocation (st_scroll_view_allocate env priv box) \<and>
   hscrollbar_visible (priv_after (st_scroll_view_allocate env (priv_after (st_scroll_view_allocate env priv box)) box))
     = hscrollbar_visible (priv_after (st_scroll_view_allocate env priv box)) \<and>
   vscrollbar_visible (priv_after (st_scroll_view_allocate env (priv_after (st_scroll_view_allocate env priv box)) box))
     = vscrollbar_visible (priv_after (st_scroll_view_allocate env priv box)) \<and>
   priv_after (st_scroll_view_allocate env (priv_after (st_scroll_view_allocate env priv box)) box)
     = priv_after (st_scroll_view_allocate env priv box) \<and>
   notifications (st_scroll_view_allocate env (priv_after (st_scroll_view_allocate env priv box)) box) = []"
  by (simp add: st_scroll_view_allocate_def Let_def case_prod_beta)

text \<open>
  C8 (as stated, refuted). With mouse scrolling enabled, a smooth event with deltas
  (5, -3) whose flags mark it as pointer-emulated is reported handled and forwards
  nothing to either adjustment.
\<close>

theorem emulated_scroll_forwards_nothing_counterexample:
  "mouse_scroll initial_view \<and>
   st_scroll_view_scroll_event initial_view CLUTTER_TEXT_DIRECTION_LTR
     \<lparr>pointer_emulated = True, scroll_direction = CLUTTER_SCROLL_SMOOTH,
      scroll_delta = (Finite 5, Finite (- 3))\<rparr> = Inr (True, []) \<and>
   Inr (True, []) \<noteq>
     (Inr (True, [AdjustForScrollEvent Hadjustment (Finite 5),
                  AdjustForScrollEvent Vadjustment (Finite (- 3))])
        :: error + (bool \<times> scroll_call list))"
  by (simp add: st_scroll_view_scroll_event_def initial_view_def)

text \<open>
  C8 (amended). Every scroll event handled with mouse scrolling enabled is reported
  handled. If it is flagged pointer-emulated it forwards nothing. Otherwise: a smooth
  event with raw deltas (dx, dy) forwards dx to the horizontal and then dy to the
  vertical adjustment, with dx negated exactly under right-to-left text direction; a
  discrete up event forwards -1 and a down event +1 to the vertical adjustment only; a
  discrete left event forwards -1 to the horizontal adjustment, or +1 under right-to-left
  direction; a discrete right event forwards +1, or -1 under right-to-left direction.
\<close>

theorem scroll_event_routing:
  "mouse_scroll priv \<Longrightarrow>
     st_scroll_view_scroll_event priv direction event =
       Inr (True,
         if pointer_emulated event then []
         else
           (case scroll_direction event of
              CLUTTER_SCROLL_SMOOTH \<Rightarrow>
                [AdjustForScrollEvent Hadjustment
                   (if direction = CLUTTER_TEXT_DIRECTION_RTL
                    then ieee_neg (fst (scroll_delta event)) else fst (scroll_delta event)),
                 AdjustForScrollEvent Vadjustment (snd (scroll_delta event))]
            | CLUTTER_SCROLL_UP \<Rightarrow> [AdjustForScrollEvent Vadjustment (Finite (- 1))]
            | CLUTTER_SCROLL_DOWN \<Rightarrow> [AdjustForScrollEvent Vadjustment (Finite 1)]
            | CLUTTER_SCROLL_LEFT \<Rightarrow>
                [AdjustForScrollEvent Hadjustment
                   (if direction = CLUTTER_TEXT_DIRECTION_RTL then Finite 1 else Finite (- 1))]
            | CLUTTER_SCROLL_RIGHT \<Rightarrow>
                [AdjustForScrollEvent Hadjustment
                   (if direction = CLUTTER_TEXT_DIRECTION_RTL then Finite (- 1) else Finite 1)]))"
  by (cases "scroll_direction event")
     (simp_all add: st_scroll_view_scroll_event_def adjust_with_direction_def
        split: prod.splits)

theorem scroll_event_routing_witness:
  "mouse_scroll initial_view \<and>
   st_scroll_view_scroll_event initial_view CLUTTER_TEXT_DIRECTION_RTL
     \<lparr>pointer_emulated = False, scroll_direction = CLUTTER_SCROLL_SMOOTH,
      scroll_delta = (Finite 5, Finite (- 3))\<rparr>
     = Inr (True, [AdjustForScrollEvent Hadjustment (Finite (- 5)),
                   AdjustForScrollEvent Vadjustment (Finite (- 3))]) \<and>
   st_scroll_view_scroll_event initial_view CLUTTER_TEXT_DIRECTION_RTL
     \<lparr>pointer_emulated = True, scroll_direction = CLUTTER_SCROLL_LEFT,
      scroll_delta = (Finite 0, Finite 0)\<rparr>
     = Inr (True, [])"
  using scroll_event_routing [of initial_view CLUTTER_TEXT_DIRECTION_RTL
          "\<lparr>pointer_emulated = False, scroll_direction = CLUTTER_SCROLL_SMOOTH,
            scroll_delta = (Finite 5, Finite (- 3))\<rparr>"]
        scroll_event_routing [of initial_view CLUTTER_TEXT_DIRECTION_RTL
          "\<lparr>pointer_emulated = True, scroll_direction = CLUTTER_SCROLL_LEFT,
            scroll_delta = (Finite 0, Finite 0)\<rparr>"]
  by (simp add: initial_view_def)

text \<open>
  C9. For every pair of policy values (h, v), \<^verbatim>\<open>set_policy\<close> leaves the stored horizontal
  and vertical policies equal to (h, v); and when the stored pair already equals (h, v)
  the call changes nothing, emits no notification and queues no relayout.
\<close>

theorem set_policy_roundtrip_noop:
  "hscrollbar_policy (fst (st_scroll_view_set_policy priv h v)) = h \<and>
   vscrollbar_policy (fst (st_scroll_view_set_policy priv h v)) = v \<and>
   (hscrollbar_policy priv = h \<and> vscrollbar_policy priv = v \<longrightarrow>
      st_scroll_view_set_policy priv h v = (priv, []))"
  by (simp add: st_scroll_view_set_policy_def Let_def)

theorem set_policy_roundtrip_noop_witness:
  "hscrollbar_policy (fst (st_scroll_view_set_policy initial_view
       ST_POLICY_AUTOMATIC ST_POLICY_AUTOMATIC)) = ST_POLICY_AUTOMATIC \<and>
   vscrollbar_policy (fst (st_scroll_view_set_policy initial_view
       ST_POLICY_AUTOMATIC ST_POLICY_AUTOMATIC)) = ST_POLICY_AUTOMATIC \<and>
   hscrollbar_policy initial_view = ST_POLICY_AUTOMATIC \<and>
   vscrollbar_policy initial_view = ST_POLICY_AUTOMATIC \<and>
   st_scroll_view_set_policy initial_view ST_POLICY_AUTOMATIC ST_POLICY_AUTOMATIC
     = (initial_view, [])"
  using set_policy_roundtrip_noop [of initial_view ST_POLICY_AUTOMATIC ST_POLICY_AUTOMATIC]
  by (simp add: initial_view_def)

text \<open>
  C10. For every preferred-width or preferred-height query made while no child is
  present, the call returns at once: the minimum and natural output locations keep their
  contents, and the theme's adjustment is not applied to them.
\<close>

theorem preferred_size_without_child:
  "child priv = NULL \<Longrightarrow>
     st_scroll_view_get_preferred_width env priv for_size min_p natural_p = (min_p, natural_p) \<and>
     st_scroll_view_get_preferred_height env priv for_size min_p natural_p = (min_p, natural_p)"
  by (simp add: st_scroll_view_get_preferred_width_def st_scroll_view_get_preferred_height_def)

theorem preferred_size_without_child_witness:
  "child (initial_view\<lparr>child := NULL\<rparr>) = NULL \<and>
   st_scroll_view_get_preferred_width
     (framed_env True (Finite 16) (Finite 290, Finite 400) (\<lambda>w. Finite 250))
     (initial_view\<lparr>child := NULL\<rparr>) (Finite 100) (Some (Finite 7)) (Some (Finite 9))
     = (Some (Finite 7), Some (Finite 9)) \<and>
   st_scroll_view_get_preferred_height
     (framed_env True (Finite 16) (Finite 290, Finite 400) (\<lambda>w. Finite 250))
     (initial_view\<lparr>child := NULL\<rparr>) (Finite 100) (Some (Finite 7)) (Some (Finite 9))
     = (Some (Finite 7), Some (Finite 9))"
  using preferred_size_without_child [of "initial_view\<lparr>child := NULL\<rparr>"
          "framed_env True (Finite 16) (Finite 290, Finite 400) (\<lambda>w. Finite 250)"
          "Finite 100" "Some (Finite 7)" "Some (Finite 9)"]
  by simp

end
